theory Spec2Isabelle
  imports Complex_Main
begin

section \<open>The load balancer: data and operations\<close>

text \<open>
  The program is one Go file: \<^verbatim>\<open>getPodIPs\<close> reads the backend addresses from the
  environment, \<^verbatim>\<open>weightedChoice\<close> picks one address by a weighted draw, and
  \<^verbatim>\<open>loadBalance\<close> forwards one GET to the picked address and answers the caller.

  Weights are \<^verbatim>\<open>float64\<close> in the source and real numbers here: the sums and the
  comparison are the exact ones, with no rounding, no infinities and no NaN. The
  value of \<^verbatim>\<open>rand.Float64()\<close>, a number of \<open>[0, 1)\<close>, is the argument \<open>u\<close> of
  the selector, so that a draw is an input and not an effect.
\<close>

subsection \<open>Run-time faults\<close>

text \<open>
  Go panics when a slice is read outside its bounds. The only panics the three
  functions can raise are of that kind: \<^verbatim>\<open>weights[i]\<close> in the loop and
  \<^verbatim>\<open>choices[len(choices)-1]\<close> after it.
\<close>

datatype fault = IndexOutOfRange

subsection \<open>The selector\<close>

text \<open>
  The loop \<^verbatim>\<open>for i, choice := range choices\<close>: the remaining addresses, the
  whole weight slice, the index \<open>i\<close>, the running sum and the draw \<open>r\<close>. It returns
  the chosen address, or \<open>None\<close> when the range ends without a \<^verbatim>\<open>return\<close>, or
  the fault of reading \<^verbatim>\<open>weights[i]\<close> beyond the slice.
\<close>

fun walk :: "string list \<Rightarrow> real list \<Rightarrow> nat \<Rightarrow> real \<Rightarrow> real \<Rightarrow> fault + string option" where
  "walk [] weights i upto_sum r = Inr None"
| "walk (choice # rest) weights i upto_sum r =
     (if i < length weights then
        (if upto_sum + weights ! i \<ge> r then Inr (Some choice)
         else walk rest weights (Suc i) (upto_sum + weights ! i) r)
      else Inl IndexOutOfRange)"

text \<open>
  \<^verbatim>\<open>weightedChoice(choices, weights)\<close>: the total is accumulated from the left
  over all weights, the draw is \<open>r = u * total\<close>, and the last address is the
  answer when the loop ends without one. On an empty \<^verbatim>\<open>choices\<close> that last read
  is at index \<open>-1\<close> and panics.
\<close>

definition weightedChoice :: "string list \<Rightarrow> real list \<Rightarrow> real \<Rightarrow> fault + string" where
  "weightedChoice choices weights u =
     (let total = foldl (+) 0 weights;
          r = u * total
      in case walk choices weights 0 0 r of
           Inl f \<Rightarrow> Inl f
         | Inr (Some choice) \<Rightarrow> Inr choice
         | Inr None \<Rightarrow>
             (if choices = [] then Inl IndexOutOfRange else Inr (last choices)))"

subsection \<open>The backend list\<close>

text \<open>
  \<^verbatim>\<open>strings.Split(s, sep)\<close> for a separator of one character: the fields between
  the separators, in order, empty fields kept; the empty string gives the one
  empty field. \<open>genSplit\<close> carries the field being read.
\<close>

fun genSplit :: "char \<Rightarrow> string \<Rightarrow> string \<Rightarrow> string list" where
  "genSplit sep cur [] = [cur]"
| "genSplit sep cur (c # cs) =
     (if c = sep then cur # genSplit sep [] cs else genSplit sep (cur @ [c]) cs)"

definition strings_Split :: "string \<Rightarrow> char \<Rightarrow> string list" where
  "strings_Split s sep = genSplit sep [] s"

text \<open>\<^verbatim>\<open>os.Getenv\<close> gives the empty string for a variable that is not set.\<close>

definition os_Getenv :: "(string \<rightharpoonup> string) \<Rightarrow> string \<Rightarrow> string" where
  "os_Getenv env key = (case env key of None \<Rightarrow> [] | Some v \<Rightarrow> v)"

definition getPodIPs :: "(string \<rightharpoonup> string) \<Rightarrow> string list" where
  "getPodIPs env = strings_Split (os_Getenv env ''POD_IPS'') (CHR '','')"

subsection \<open>The gateway\<close>

text \<open>
  The network is a function from the URL of a GET to what \<^verbatim>\<open>http.Get\<close> and
  \<^verbatim>\<open>io.ReadAll\<close> give for it: an error of the request, or a response with its
  status whose body either reads to the end or fails while being read.
\<close>

datatype body_read = ReadError | ReadAll string

datatype get_result = GetError | Response nat body_read

record request =
  req_method :: string
  req_path :: string

text \<open>What the handler wrote to its \<^verbatim>\<open>ResponseWriter\<close>: status and body.\<close>

record response =
  status :: nat
  body :: string

text \<open>
  One handled request: the reply (or the panic that ended the handler) and the
  URLs of the outbound requests it issued, in order.
\<close>

record handled =
  reply :: "fault + response"
  calls :: "string list"

text \<open>\<^verbatim>\<open>http.Error\<close> writes the status and the message followed by a newline.\<close>

definition http_Error :: "string \<Rightarrow> nat \<Rightarrow> response" where
  "http_Error msg code = \<lparr>status = code, body = msg @ [CHR 0x0A]\<rparr>"

text \<open>
  \<^verbatim>\<open>loadBalance(w, r)\<close>. The request is not read by the handler. A body written
  with \<^verbatim>\<open>w.Write\<close> and no earlier \<^verbatim>\<open>WriteHeader\<close> goes out with status 200.
\<close>

definition loadBalance ::
  "(string \<rightharpoonup> string) \<Rightarrow> (string \<Rightarrow> get_result) \<Rightarrow> real \<Rightarrow> request \<Rightarrow> handled" where
  "loadBalance env net u req =
     (let podIPs = getPodIPs env;
          weights = [0.5, 0.3, 0.2]
      in case weightedChoice podIPs weights u of
           Inl f \<Rightarrow> \<lparr>reply = Inl f, calls = []\<rparr>
         | Inr selectedPod \<Rightarrow>
             (let url = ''http://'' @ selectedPod
              in case net url of
                   GetError \<Rightarrow>
                     \<lparr>reply = Inr (http_Error ''Failed to reach pod'' 500), calls = [url]\<rparr>
                 | Response st rd \<Rightarrow>
                     (case rd of
                        ReadError \<Rightarrow>
                          \<lparr>reply = Inr (http_Error ''Failed to read response'' 500),
                           calls = [url]\<rparr>
                      | ReadAll bytes \<Rightarrow>
                          \<lparr>reply = Inr \<lparr>status = 200, body = bytes\<rparr>, calls = [url]\<rparr>)))"

subsection \<open>The selection rule in the specification's words\<close>


section \<open>Properties of the selector\<close>



text \<open>With a weight for every address left, the loop reads no weight out of range.\<close>

lemma walk_no_fault:
  "i + length cs \<le> length ws \<Longrightarrow> \<exists>m. walk cs ws i s r = Inr m"
  by (induction cs arbitrary: i s) simp_all

lemma walk_Some_mem: "walk cs ws i s r = Inr (Some c) \<Longrightarrow> c \<in> set cs"
  by (induction cs arbitrary: i s) (auto split: if_splits)





















section \<open>Properties of the backend list\<close>



text \<open>
  An unset variable and an empty one give the same list: the one empty address.
\<close>

lemma getPodIPs_unset:
  "env ''POD_IPS'' = None \<or> env ''POD_IPS'' = Some [] \<Longrightarrow> getPodIPs env = [[]]"
  by (auto simp: getPodIPs_def os_Getenv_def strings_Split_def)

section \<open>Properties of the gateway\<close>


lemma calls_le_one: "length (calls (loadBalance env net u req)) \<le> 1"
  by (simp add: loadBalance_def Let_def split: sum.splits get_result.splits body_read.splits)

text \<open>
  A single address is returned whatever the draw: in the loop when the draw is at
  most the first weight, as the last address otherwise.
\<close>

lemma weightedChoice_single: "weightedChoice [c] [0.5, 0.3, 0.2] u = Inr c"
  by (simp add: weightedChoice_def)

section \<open>The claims about the selector\<close>












text \<open>
  Claim C5. For every non-empty backend set with as many weights as addresses and
  a positive total, whatever the weights and the draw, the selector returns a
  backend of the set and raises no fault; when the loop ends without a match, the
  backend returned is the last one listed.
\<close>

theorem select_total:
  assumes "choices \<noteq> []" and "length weights = length choices" and "0 < sum_list weights"
  shows "\<exists>c. weightedChoice choices weights u = Inr c \<and> c \<in> set choices
           \<and> (walk choices weights 0 0 (u * foldl (+) 0 weights) = Inr None
                \<longrightarrow> c = last choices)"
proof -
  obtain m where m: "walk choices weights 0 0 (u * foldl (+) 0 weights) = Inr m"
    using walk_no_fault [of 0 choices weights] assms(2) by auto
  show ?thesis
  proof (cases m)
    case None
    with m assms(1) show ?thesis by (simp add: weightedChoice_def)
  next
    case (Some c)
    with m walk_Some_mem [of choices weights 0 0 "u * foldl (+) 0 weights" c] show ?thesis
      by (simp add: weightedChoice_def)
  qed
qed

text \<open>
  The instances: a large and a tiny weight with a draw just under the total, and a
  draw beyond the total, where the loop ends without a match.
\<close>

theorem select_total_witness:
  "weightedChoice [''10.0.0.1'', ''10.0.0.2''] [1000000, 0.000001] 0.9999999999995
     = Inr ''10.0.0.2''
   \<and> ''10.0.0.2'' \<in> set [''10.0.0.1'', ''10.0.0.2'']
   \<and> walk [''10.0.0.1'', ''10.0.0.2''] [1, 1] 0 0 ((3 / 2) * foldl (+) 0 [1, 1]) = Inr None
   \<and> weightedChoice [''10.0.0.1'', ''10.0.0.2''] [1, 1] (3 / 2) = Inr ''10.0.0.2''"
proof -
  have a: "weightedChoice [''10.0.0.1'', ''10.0.0.2''] [1000000, 0.000001] 0.9999999999995
     = Inr ''10.0.0.2''"
    by (simp add: weightedChoice_def)
  have b: "walk [''10.0.0.1'', ''10.0.0.2''] [1, 1] 0 0 ((3 / 2) * foldl (+) 0 [1, 1]) = Inr None"
    by simp
  show ?thesis
    using a b
      select_total [of "[''10.0.0.1'', ''10.0.0.2'']" "[1000000, 0.000001]" "0.9999999999995"]
      select_total [of "[''10.0.0.1'', ''10.0.0.2'']" "[1, 1]" "3 / 2"]
    by simp
qed



section \<open>The claims about the gateway\<close>

text \<open>
  Claim C7. For every inbound request, when the GET to the chosen backend fails,
  the handler answers with the synthesized status 500 and the body
  \<^verbatim>\<open>Failed to reach pod\<close>, and that GET is its only outbound request: there is
  no retry against another backend. Whatever happens, a handled request issues at
  most one outbound request.
\<close>

theorem conn_failure_single_shot:
  "(weightedChoice (getPodIPs env) [0.5, 0.3, 0.2] u = Inr pod
      \<and> net (''http://'' @ pod) = GetError
    \<longrightarrow> loadBalance env net u req =
          \<lparr>reply = Inr \<lparr>status = 500, body = ''Failed to reach pod'' @ [CHR 0x0A]\<rparr>,
           calls = [''http://'' @ pod]\<rparr>)
   \<and> length (calls (loadBalance env net u req)) \<le> 1"
proof -
  have "weightedChoice (getPodIPs env) [0.5, 0.3, 0.2] u = Inr pod
          \<and> net (''http://'' @ pod) = GetError
        \<longrightarrow> loadBalance env net u req =
              \<lparr>reply = Inr \<lparr>status = 500, body = ''Failed to reach pod'' @ [CHR 0x0A]\<rparr>,
               calls = [''http://'' @ pod]\<rparr>"
    by (simp add: loadBalance_def http_Error_def)
  then show ?thesis
    using calls_le_one [of env net u req] by blast
qed

theorem conn_failure_single_shot_witness:
  "weightedChoice (getPodIPs [''POD_IPS'' \<mapsto> ''10.0.0.1,10.0.0.2'']) [0.5, 0.3, 0.2] 0.6
      = Inr ''10.0.0.2''
   \<and> loadBalance [''POD_IPS'' \<mapsto> ''10.0.0.1,10.0.0.2''] (\<lambda>url. GetError) 0.6
        \<lparr>req_method = ''POST'', req_path = ''/orders''\<rparr>
      = \<lparr>reply = Inr \<lparr>status = 500, body = ''Failed to reach pod'' @ [CHR 0x0A]\<rparr>,
         calls = [''http://10.0.0.2'']\<rparr>"
proof -
  have sel: "weightedChoice (getPodIPs [''POD_IPS'' \<mapsto> ''10.0.0.1,10.0.0.2''])
               [0.5, 0.3, 0.2] 0.6 = Inr ''10.0.0.2''"
    by (simp add: getPodIPs_def os_Getenv_def strings_Split_def weightedChoice_def)
  show ?thesis
    using sel
      conn_failure_single_shot [of "[''POD_IPS'' \<mapsto> ''10.0.0.1,10.0.0.2'']" "0.6"
        "''10.0.0.2''" "\<lambda>url. GetError" "\<lparr>req_method = ''POST'', req_path = ''/orders''\<rparr>"]
    by simp
qed

text \<open>
  Claim C8. For every inbound request, when the GET to the chosen backend succeeds
  and reading the body of the response fails, the handler answers with a
  synthesized failure, status 500 and the body \<^verbatim>\<open>Failed to read response\<close>,
  and this reply differs from the one the handler gives when the connection
  fails.
\<close>

theorem read_failure_distinct:
  "weightedChoice (getPodIPs env) [0.5, 0.3, 0.2] u = Inr pod
     \<and> net (''http://'' @ pod) = Response st ReadError
     \<and> net' (''http://'' @ pod) = GetError
   \<longrightarrow> loadBalance env net u req =
         \<lparr>reply = Inr \<lparr>status = 500, body = ''Failed to read response'' @ [CHR 0x0A]\<rparr>,
          calls = [''http://'' @ pod]\<rparr>
       \<and> reply (loadBalance env net u req) \<noteq> reply (loadBalance env net' u req)"
  by (simp add: loadBalance_def http_Error_def)

theorem read_failure_distinct_witness:
  "weightedChoice (getPodIPs [''POD_IPS'' \<mapsto> ''10.0.0.1,10.0.0.2'']) [0.5, 0.3, 0.2] 0.25
      = Inr ''10.0.0.1''
   \<and> loadBalance [''POD_IPS'' \<mapsto> ''10.0.0.1,10.0.0.2''] (\<lambda>url. Response 200 ReadError) 0.25
        \<lparr>req_method = ''GET'', req_path = ''/''\<rparr>
      = \<lparr>reply = Inr \<lparr>status = 500, body = ''Failed to read response'' @ [CHR 0x0A]\<rparr>,
         calls = [''http://10.0.0.1'']\<rparr>
   \<and> reply (loadBalance [''POD_IPS'' \<mapsto> ''10.0.0.1,10.0.0.2''] (\<lambda>url. Response 200 ReadError)
         0.25 \<lparr>req_method = ''GET'', req_path = ''/''\<rparr>)
      \<noteq> reply (loadBalance [''POD_IPS'' \<mapsto> ''10.0.0.1,10.0.0.2''] (\<lambda>url. GetError)
         0.25 \<lparr>req_method = ''GET'', req_path = ''/''\<rparr>)"
proof -
  have sel: "weightedChoice (getPodIPs [''POD_IPS'' \<mapsto> ''10.0.0.1,10.0.0.2''])
               [0.5, 0.3, 0.2] 0.25 = Inr ''10.0.0.1''"
    by (simp add: getPodIPs_def os_Getenv_def strings_Split_def weightedChoice_def)
  show ?thesis
    using sel
      read_failure_distinct [of "[''POD_IPS'' \<mapsto> ''10.0.0.1,10.0.0.2'']" "0.25"
        "''10.0.0.1''" "\<lambda>url. Response 200 ReadError" 200 "\<lambda>url. GetError"
        "\<lparr>req_method = ''GET'', req_path = ''/''\<rparr>"]
    by auto
qed

text \<open>
  Claim C9. For every inbound request, when the chosen backend answers with
  status 200 and a body that reads to the end, the handler relays that body with
  status 200: for the body \<^verbatim>\<open>OK\<close> the caller receives \<^verbatim>\<open>OK\<close> and 200.
\<close>

theorem success_relays_body:
  "weightedChoice (getPodIPs env) [0.5, 0.3, 0.2] u = Inr pod
     \<and> net (''http://'' @ pod) = Response 200 (ReadAll b)
   \<longrightarrow> loadBalance env net u req =
         \<lparr>reply = Inr \<lparr>status = 200, body = b\<rparr>, calls = [''http://'' @ pod]\<rparr>"
  by (simp add: loadBalance_def)

theorem success_relays_body_witness:
  "weightedChoice (getPodIPs [''POD_IPS'' \<mapsto> ''10.0.0.1,10.0.0.2,10.0.0.3''])
       [0.5, 0.3, 0.2] 0.9 = Inr ''10.0.0.3''
   \<and> loadBalance [''POD_IPS'' \<mapsto> ''10.0.0.1,10.0.0.2,10.0.0.3'']
        (\<lambda>url. Response 200 (ReadAll ''OK'')) 0.9 \<lparr>req_method = ''GET'', req_path = ''/''\<rparr>
      = \<lparr>reply = Inr \<lparr>status = 200, body = ''OK''\<rparr>, calls = [''http://10.0.0.3'']\<rparr>"
proof -
  have sel: "weightedChoice (getPodIPs [''POD_IPS'' \<mapsto> ''10.0.0.1,10.0.0.2,10.0.0.3''])
               [0.5, 0.3, 0.2] 0.9 = Inr ''10.0.0.3''"
    by (simp add: getPodIPs_def os_Getenv_def strings_Split_def weightedChoice_def)
  show ?thesis
    using sel
      success_relays_body [of "[''POD_IPS'' \<mapsto> ''10.0.0.1,10.0.0.2,10.0.0.3'']" "0.9"
        "''10.0.0.3''" "\<lambda>url. Response 200 (ReadAll ''OK'')" "''OK''"
        "\<lparr>req_method = ''GET'', req_path = ''/''\<rparr>"]
    by simp
qed

text \<open>
  Claim C10. When \<^verbatim>\<open>POD_IPS\<close> is unset or empty, \<^verbatim>\<open>getPodIPs\<close> returns the
  list of the one empty address, so the selector is given a non-empty list, and
  the handler issues a GET to \<^verbatim>\<open>http://\<close>; when that GET fails, the reply is
  the connection-failure reply, not a report that no backend is available.
\<close>

theorem unset_pod_ips_calls_empty_host:
  assumes "env ''POD_IPS'' = None \<or> env ''POD_IPS'' = Some ''''"
  shows "getPodIPs env = ['''']
       \<and> calls (loadBalance env net u req) = [''http://'']
       \<and> (net ''http://'' = GetError \<longrightarrow>
            reply (loadBalance env net u req) =
              Inr \<lparr>status = 500, body = ''Failed to reach pod'' @ [CHR 0x0A]\<rparr>)"
proof -
  have ips: "getPodIPs env = ['''']"
    using assms by (rule getPodIPs_unset)
  have sel: "weightedChoice (getPodIPs env) [0.5, 0.3, 0.2] u = Inr ''''"
    unfolding ips by (rule weightedChoice_single)
  show ?thesis
    unfolding loadBalance_def Let_def sel
    by (simp add: ips http_Error_def split: get_result.splits body_read.splits)
qed

theorem unset_pod_ips_calls_empty_host_witness:
  "getPodIPs Map.empty = ['''']
   \<and> calls (loadBalance Map.empty (\<lambda>url. GetError) 0.7
        \<lparr>req_method = ''GET'', req_path = ''/''\<rparr>) = [''http://'']
   \<and> reply (loadBalance Map.empty (\<lambda>url. GetError) 0.7
        \<lparr>req_method = ''GET'', req_path = ''/''\<rparr>)
      = Inr \<lparr>status = 500, body = ''Failed to reach pod'' @ [CHR 0x0A]\<rparr>
   \<and> getPodIPs [''POD_IPS'' \<mapsto> ''''] = ['''']
   \<and> calls (loadBalance [''POD_IPS'' \<mapsto> ''''] (\<lambda>url. GetError) 0.2
        \<lparr>req_method = ''GET'', req_path = ''/''\<rparr>) = [''http://'']"
  using unset_pod_ips_calls_empty_host [of Map.empty "\<lambda>url. GetError" "0.7"
          "\<lparr>req_method = ''GET'', req_path = ''/''\<rparr>"]
    unset_pod_ips_calls_empty_host [of "[''POD_IPS'' \<mapsto> '''']" "\<lambda>url. GetError" "0.2"
          "\<lparr>req_method = ''GET'', req_path = ''/''\<rparr>"]
  by simp

end
